theory Spec2Isabelle
  imports Main
begin

section \<open>The dataset helper \<open>TFDataSet\<close> of \<open>tf_dataset.py\<close>\<close>

text \<open>
  \<open>TFDataSet\<close> sequences calls into an input-pipeline library: it lists files, reads
  them, shards, shuffles, parses and batches. The pipeline it builds is lazy (a
  description of stages), so the embedding is a datatype of pipeline descriptions
  with one constructor per library call of the source, and the methods of the class
  are functions that build such descriptions. Two places of the source run a pipeline
  eagerly, in a \<open>while True\<close> loop that only an exception ends: the file listing of
  \<open>read\<close> and the record count. They are partial functions in the option monad,
  \<open>None\<close> meaning that the loop never ends.
\<close>

subsection \<open>Exceptions\<close>

datatype error =
    OutOfRangeError
  | ValueError string
  | NotImplementedError string
  | AttributeError string
  | TypeError string
  | OtherError string

subsection \<open>Pipeline descriptions\<close>

type_synonym filename = string

text \<open>A raw record (\<open>example_serialized\<close> in the source), for instance one line of text.\<close>

type_synonym example = string

text \<open>The class stored in \<open>self.dataset_class\<close>; the constructor's default is \<open>TextLineDataset\<close>.\<close>

datatype reader_class = TextLineDataset | ReaderClass string

text \<open>
  Datasets of file names: \<open>Dataset.list_files(pattern)\<close> and \<open>.repeat(count)\<close>.
  A count of \<open>None\<close> is Python's \<open>None\<close>.
\<close>

datatype files_ds =
    ListFiles string
  | RepeatFiles files_ds "int option"

text \<open>
  Datasets of raw records, and datasets of (index, record) pairs as \<open>.enumerate()\<close>
  makes them. \<open>Interleave d c n b\<close> is \<open>d.interleave(c, cycle_length=n, block_length=b)\<close>,
  \<open>FromFiles c fs\<close> is the reader \<open>c(fs)\<close> over a Python list, \<open>FromDataset c d\<close> the
  reader \<open>c(d)\<close> over a dataset of names, \<open>Shuffle d n\<close> is \<open>d.shuffle(buffer_size=n)\<close>.
\<close>

datatype recs_ds =
    Interleave files_ds reader_class int int
  | FromFiles reader_class "filename list"
  | FromDataset reader_class files_ds
  | RepeatRecs recs_ds "int option"
  | MapIndexed "int \<times> example \<Rightarrow> example" indexed_ds
  | Shuffle recs_ds int
and indexed_ds =
    Enumerate recs_ds
  | Filter "int \<times> example \<Rightarrow> bool" indexed_ds

text \<open>
  The parse stage \<open>d.map(f, num_threads=t, output_buffer_size=b)\<close> and the batch stage
  \<open>d.batch(n)\<close>; \<open>'p\<close> is the type of a parsed record.
\<close>

datatype 'p parsed_ds = ParMap "example \<Rightarrow> error + 'p" int int recs_ds

datatype 'p batch_ds = Batch "'p parsed_ds" int

subsection \<open>The instance, the task specification, the outside world\<close>

text \<open>
  The attribute \<open>_size\<close> of an instance: absent, bound to \<open>None\<close>, or bound to an
  integer. Reading an absent attribute raises \<open>AttributeError\<close>.
\<close>

datatype size_slot = Missing | IsNone | Cached int

text \<open>
  An instance: the five attributes the constructor assigns, the attribute \<open>_size\<close>,
  and the method \<open>_map\<close> of the instance's class: \<open>None\<close> when the class does not
  override it, \<open>Some f\<close> for a subclass whose parser computes \<open>f\<close>.
\<close>

record 'p TFDataSet =
  name :: string
  data_files_pattern :: string
  dataset_class :: reader_class
  min_queue_examples :: int
  shuffle_size :: "int option"
  size_slot :: size_slot
  map_override :: "(example \<Rightarrow> 'p) option"

record task_spec =
  num_workers :: int
  index :: int

text \<open>
  What the source takes from outside: the processor count
  (\<open>multiprocessing.cpu_count()\<close>), the file names a pattern matches in the order the
  listing yields them, and the behaviour of the library on datasets of records:
  \<^item> \<open>run_records env d k\<close> is what the \<open>k\<close>-th \<open>sess.run(next_element)\<close> does on a
    one-shot iterator over \<open>d\<close>: it returns a record or raises;
  \<^item> \<open>source_records env d\<close> is the sequence of records a reader or an interleave yields;
  \<^item> \<open>shuffle_order env n xs\<close> is the order in which a shuffle with buffer size \<open>n\<close>
    yields the records \<open>xs\<close>;
  \<^item> \<open>accepts_dataset env nm\<close> tells whether the constructor of the reader class named
    \<open>nm\<close> takes a dataset of file names as its argument.
  Nothing is assumed about them.
\<close>

record env =
  cpu_count :: int
  list_files :: "string \<Rightarrow> filename list"
  run_records :: "recs_ds \<Rightarrow> nat \<Rightarrow> error + example"
  source_records :: "recs_ds \<Rightarrow> example list"
  shuffle_order :: "int \<Rightarrow> example list \<Rightarrow> example list"
  accepts_dataset :: "string \<Rightarrow> bool"

subsection \<open>The library's operators on sequences\<close>

text \<open>
  \<open>.repeat(count)\<close> on file names: a count of \<open>None\<close> or below zero repeats for ever,
  zero gives the empty dataset. A dataset of names is a finite list, or a non-empty
  list cycled for ever (the flag).
\<close>

fun files_of :: "env \<Rightarrow> files_ds \<Rightarrow> filename list \<times> bool" where
  "files_of env (ListFiles pattern) = (list_files env pattern, False)"
| "files_of env (RepeatFiles d count) =
     (case files_of env d of
        (fs, True) \<Rightarrow> (fs, True)
      | (fs, False) \<Rightarrow>
          (case count of
             None \<Rightarrow> (fs, fs \<noteq> [])
           | Some c \<Rightarrow>
               if c < 0 then (fs, fs \<noteq> [])
               else (concat (replicate (nat c) fs), False)))"

text \<open>
  \<open>run_files env d k\<close> is what the \<open>k\<close>-th \<open>sess.run(filename)\<close> does on a one-shot
  iterator over \<open>d\<close>: the next name, or \<open>OutOfRangeError\<close> once the names are used up.
\<close>

definition run_files :: "env \<Rightarrow> files_ds \<Rightarrow> nat \<Rightarrow> error + filename" where
  "run_files env d k =
     (case files_of env d of
        (fs, True) \<Rightarrow> Inr (fs ! (k mod length fs))
      | (fs, False) \<Rightarrow> if k < length fs then Inr (fs ! k) else Inl OutOfRangeError)"

text \<open>
  \<open>.enumerate()\<close> pairs each element with its position, counted from zero. The
  library counts in 64-bit integers; a stream is taken to be shorter than \<open>2^63\<close>,
  so the position is an \<open>int\<close>.
\<close>

definition enumerate_ds :: "'a list \<Rightarrow> (int \<times> 'a) list" where
  "enumerate_ds xs = zip (map int [0..<length xs]) xs"

text \<open>
  The records a dataset yields, for the stages this class puts on top of a source:
  \<open>.enumerate()\<close>, \<open>.filter(p)\<close>, \<open>.map(f)\<close> and \<open>.shuffle(n)\<close>. A statement about
  \<open>records\<close> on an endless stream is a statement about each finite prefix of it.
\<close>

fun records :: "env \<Rightarrow> recs_ds \<Rightarrow> example list"
  and indexed :: "env \<Rightarrow> indexed_ds \<Rightarrow> (int \<times> example) list" where
  "records env (MapIndexed f d) = map f (indexed env d)"
| "records env (Shuffle d n) = shuffle_order env n (records env d)"
| "records env (Interleave fd c n b) = source_records env (Interleave fd c n b)"
| "records env (FromFiles c fs) = source_records env (FromFiles c fs)"
| "records env (FromDataset c fd) = source_records env (FromDataset c fd)"
| "records env (RepeatRecs d count) = source_records env (RepeatRecs d count)"
| "indexed env (Enumerate d) = enumerate_ds (records env d)"
| "indexed env (Filter p d) = filter p (indexed env d)"

text \<open>
  A reader made over a dataset of file names, \<open>c(d)\<close>. The \<open>TextLineDataset\<close> the
  source imports turns its argument into a tensor of strings, which a dataset is not:
  its constructor raises \<open>TypeError\<close>. For another class the outside world tells.
\<close>

fun reader_over_dataset :: "env \<Rightarrow> reader_class \<Rightarrow> files_ds \<Rightarrow> error + recs_ds" where
  "reader_over_dataset env TextLineDataset d =
     Inl (TypeError ''Failed to convert object of type Dataset to Tensor'')"
| "reader_over_dataset env (ReaderClass nm) d =
     (if accepts_dataset env nm then Inr (FromDataset (ReaderClass nm) d)
      else Inl (TypeError ''Failed to convert object of type Dataset to Tensor''))"

subsection \<open>The constructor\<close>

text \<open>
  \<open>__init__\<close> assigns the five attributes and nothing else: \<open>_size\<close> stays absent.
  The defaults of the source are \<open>dataset_class=TextLineDataset\<close>,
  \<open>min_queue_examples=0\<close> and \<open>shuffle_size=None\<close>. The last argument is the parser
  of the class being instantiated.
\<close>

definition init ::
  "string \<Rightarrow> string \<Rightarrow> reader_class \<Rightarrow> int \<Rightarrow> int option \<Rightarrow> (example \<Rightarrow> 'p) option
     \<Rightarrow> 'p TFDataSet" where
  "init nm pattern cls min_queue shuffle_sz parser =
     \<lparr> name = nm,
       data_files_pattern = pattern,
       dataset_class = cls,
       min_queue_examples = min_queue,
       shuffle_size = shuffle_sz,
       size_slot = Missing,
       map_override = parser \<rparr>"

subsection \<open>The parse hook\<close>

text \<open>The method \<open>_map\<close> of the base class raises for every record.\<close>

definition TFDataSet_map :: "'p TFDataSet \<Rightarrow> example \<Rightarrow> error + 'p" where
  "TFDataSet_map self example_serialized =
     Inl (NotImplementedError ''Should have implemented this'')"

text \<open>\<open>self._map\<close>: the method of the instance's class, bound to the instance.\<close>

definition bound_map :: "'p TFDataSet \<Rightarrow> example \<Rightarrow> error + 'p" where
  "bound_map self =
     (case map_override self of
        None \<Rightarrow> TFDataSet_map self
      | Some f \<Rightarrow> (\<lambda>example_serialized. Inr (f example_serialized)))"

text \<open>
  \<open>Dataset.map\<close> calls its function once when the stage is made, on a symbolic
  record, to build the function's graph; an exception raised by the function leaves
  the call of \<open>map\<close>. The symbolic record is modelled by the empty record.
\<close>

definition dataset_map ::
  "(example \<Rightarrow> error + 'p) \<Rightarrow> int \<Rightarrow> int \<Rightarrow> recs_ds \<Rightarrow> error + 'p parsed_ds" where
  "dataset_map f threads buffer d =
     (case f [] of
        Inl e \<Rightarrow> Inl e
      | Inr _ \<Rightarrow> Inr (ParMap f threads buffer d))"

subsection \<open>\<open>read\<close>\<close>

text \<open>
  The loop of lines 53 to 61: \<open>files\<close> grows by one name per \<open>sess.run\<close>, the position
  of the iterator is the number of names read so far. \<open>OutOfRangeError\<close> ends the loop
  with the list; any other exception leaves \<open>read\<close>.
\<close>

partial_function (option) drain_files ::
  "(nat \<Rightarrow> error + filename) \<Rightarrow> filename list \<Rightarrow> (error + filename list) option" where
  "drain_files run files =
     (case run (length files) of
        Inr d \<Rightarrow> drain_files run (files @ [d])
      | Inl e \<Rightarrow> if e = OutOfRangeError then Some (Inr files) else Some (Inl e))"

text \<open>Lines 41 to 62: the dataset of records, interleaved or read file after file.\<close>

definition read_source ::
  "env \<Rightarrow> 'p TFDataSet \<Rightarrow> int option \<Rightarrow> bool \<Rightarrow> (error + recs_ds) option" where
  "read_source env self num_epochs shuffle =
     (let dataset = ListFiles (data_files_pattern self);
          dataset = RepeatFiles dataset num_epochs
      in if shuffle then
           Some (Inr (Interleave dataset (dataset_class self) (cpu_count env + 1) 1))
         else
           (case drain_files (run_files env dataset) [] of
              None \<Rightarrow> None
            | Some (Inl e) \<Rightarrow> Some (Inl e)
            | Some (Inr files) \<Rightarrow> Some (Inr (FromFiles (dataset_class self) files))))"

text \<open>Lines 64 to 73: the shard of one worker.\<close>

definition filter_fn :: "task_spec \<Rightarrow> int \<times> example \<Rightarrow> bool" where
  "filter_fn task_spec =
     (\<lambda>(elem_index, _).
        let mod_result = elem_index mod num_workers task_spec
        in mod_result = index task_spec)"

definition read_shard :: "task_spec option \<Rightarrow> recs_ds \<Rightarrow> recs_ds" where
  "read_shard task_spec dataset =
     (case task_spec of
        None \<Rightarrow> dataset
      | Some t \<Rightarrow>
          if num_workers t > 1 then
            MapIndexed (\<lambda>(_, elem). elem) (Filter (filter_fn t) (Enumerate dataset))
          else dataset)"

text \<open>Lines 75 to 79: the shuffle, which needs a buffer size.\<close>

definition read_shuffle :: "'p TFDataSet \<Rightarrow> bool \<Rightarrow> recs_ds \<Rightarrow> error + recs_ds" where
  "read_shuffle self shuffle dataset =
     (if shuffle then
        (case shuffle_size self of
           None \<Rightarrow> Inl (ValueError ''shuffle_size has not been set'')
         | Some n \<Rightarrow> Inr (Shuffle dataset n))
      else Inr dataset)"

text \<open>Lines 82 to 90: the parse stage and the batch stage.\<close>

definition read_parse ::
  "env \<Rightarrow> 'p TFDataSet \<Rightarrow> int \<Rightarrow> recs_ds \<Rightarrow> error + 'p batch_ds" where
  "read_parse env self batch_size dataset =
     (case dataset_map (bound_map self) (cpu_count env + 1)
             (batch_size * cpu_count env + min_queue_examples self) dataset of
        Inl e \<Rightarrow> Inl e
      | Inr dataset \<Rightarrow> Inr (Batch dataset batch_size))"

text \<open>
  \<open>read\<close> returns what the call does (a pipeline or an exception) and the instance as
  the call leaves it; the body assigns no attribute. \<open>None\<close>: the call never returns.
\<close>

definition read ::
  "env \<Rightarrow> 'p TFDataSet \<Rightarrow> int \<Rightarrow> int option \<Rightarrow> bool \<Rightarrow> task_spec option
     \<Rightarrow> ((error + 'p batch_ds) \<times> 'p TFDataSet) option" where
  "read env self batch_size num_epochs shuffle task_spec =
     (case read_source env self num_epochs shuffle of
        None \<Rightarrow> None
      | Some (Inl e) \<Rightarrow> Some (Inl e, self)
      | Some (Inr dataset) \<Rightarrow>
          (case read_shuffle self shuffle (read_shard task_spec dataset) of
             Inl e \<Rightarrow> Some (Inl e, self)
           | Inr dataset \<Rightarrow> Some (read_parse env self batch_size dataset, self)))"

subsection \<open>\<open>_count_num_records\<close> and \<open>get_size\<close>\<close>

text \<open>
  The loop of lines 127 to 129: \<open>samples\<close> counts the records read, which is also the
  position of the iterator. Any exception ends the loop with the count.
\<close>

partial_function (option) count_loop ::
  "(nat \<Rightarrow> error + example) \<Rightarrow> nat \<Rightarrow> int option" where
  "count_loop run samples =
     (case run samples of
        Inr _ \<Rightarrow> count_loop run (samples + 1)
      | Inl _ \<Rightarrow> Some (int samples))"

text \<open>
  Lines 121 and 122: the pipeline that is counted, one pass over the raw records.
  These lines stand before the \<open>try\<close>: an exception of the reader's constructor
  leaves \<open>_count_num_records\<close>.
\<close>

definition count_dataset :: "env \<Rightarrow> 'p TFDataSet \<Rightarrow> error + recs_ds" where
  "count_dataset env self =
     (let dataset = RepeatFiles (ListFiles (data_files_pattern self)) (Some 1)
      in case reader_over_dataset env (dataset_class self) dataset of
           Inl e \<Rightarrow> Inl e
         | Inr dataset \<Rightarrow> Inr (RepeatRecs dataset (Some 1)))"

text \<open>
  Lines 123 to 132. The \<open>try\<close> covers the making of the iterator and of the session
  (an exception there is the iterator raising at its first step) and the loop; what
  is raised inside is swallowed and the count so far is returned. \<open>None\<close>: the loop
  never ends.
\<close>

definition count_num_records :: "env \<Rightarrow> 'p TFDataSet \<Rightarrow> (error + int) option" where
  "count_num_records env self =
     (case count_dataset env self of
        Inl e \<Rightarrow> Some (Inl e)
      | Inr dataset \<Rightarrow>
          (let samples = 0
           in case count_loop (run_records env dataset) samples of
                None \<Rightarrow> None
              | Some samples \<Rightarrow> Some (Inr samples)))"

text \<open>
  Lines 134 to 137. An exception that leaves \<open>_count_num_records\<close> leaves \<open>get_size\<close>
  before the assignment to \<open>_size\<close>.
\<close>

definition get_size :: "env \<Rightarrow> 'p TFDataSet \<Rightarrow> ((error + int) \<times> 'p TFDataSet) option" where
  "get_size env self =
     (case size_slot self of
        Missing \<Rightarrow>
          Some (Inl (AttributeError ''TFDataSet object has no attribute _size''), self)
      | IsNone \<Rightarrow>
          (case count_num_records env self of
             None \<Rightarrow> None
           | Some (Inl e) \<Rightarrow> Some (Inl e, self)
           | Some (Inr n) \<Rightarrow> Some (Inr n, self\<lparr>size_slot := Cached n\<rparr>))
      | Cached n \<Rightarrow> Some (Inr n, self))"

subsection \<open>A small world to run the definitions in\<close>

text \<open>
  Two files match \<open>*.txt\<close>; the reader yields three records and then fails with a
  data-loss error; a source yields five records; the shuffle reverses; the reader
  class \<open>FilesReader\<close> takes a dataset of file names.
\<close>

definition demo_env :: env where
  "demo_env =
     \<lparr> cpu_count = 4,
       list_files = (\<lambda>pattern. if pattern = ''*.txt'' then [''a.txt'', ''b.txt''] else []),
       run_records = (\<lambda>d k. if k < 3 then Inr ''line'' else Inl (OtherError ''DataLossError'')),
       source_records = (\<lambda>d. [''r0'', ''r1'', ''r2'', ''r3'', ''r4'']),
       shuffle_order = (\<lambda>n xs. rev xs),
       accepts_dataset = (\<lambda>nm. nm = ''FilesReader'') \<rparr>"

section \<open>Properties\<close>

subsection \<open>The two loops\<close>

lemma drain_files_prefix:
  assumes yields: "\<And>j. j < length fs \<Longrightarrow> run j = Inr (fs ! j)"
    and stops: "run (length fs) = Inl e"
    and k: "k \<le> length fs"
  shows "drain_files run (take k fs) =
           Some (if e = OutOfRangeError then Inr fs else Inl e)"
  using k
proof (induction "length fs - k" arbitrary: k)
  case 0
  then have "take k fs = fs" by simp
  then show ?case using stops by (subst drain_files.simps) simp
next
  case (Suc m)
  then have lt: "k < length fs" by simp
  have step: "take k fs @ [fs ! k] = take (Suc k) fs"
    using lt by (simp add: take_Suc_conv_app_nth)
  have "drain_files run (take k fs) = drain_files run (take (Suc k) fs)"
    using lt yields [OF lt] step by (subst drain_files.simps) simp
  also have "\<dots> = Some (if e = OutOfRangeError then Inr fs else Inl e)"
    using Suc lt by (intro Suc.hyps(1)) simp_all
  finally show ?case .
qed

lemma drain_files_all:
  assumes "\<And>j. j < length fs \<Longrightarrow> run j = Inr (fs ! j)"
    and "run (length fs) = Inl OutOfRangeError"
  shows "drain_files run [] = Some (Inr fs)"
  using drain_files_prefix [OF assms, of 0] by simp

lemma drain_files_returns:
  "drain_files run files = Some y \<Longrightarrow> \<exists>j e. run j = Inl e \<and> (\<forall>e'. y = Inl e' \<longrightarrow> e' = e \<and> e \<noteq> OutOfRangeError)"
proof (induction rule: drain_files.raw_induct [rotated 1, consumes 1])
  case (1 drain_files run files y)
  show ?case
  proof (cases "run (length files)")
    case (Inl e)
    with 1(2) show ?thesis by (auto split: if_splits)
  next
    case (Inr d)
    with 1 show ?thesis by auto
  qed
qed

lemma drain_files_endless:
  assumes "\<And>j. \<exists>d. run j = Inr d"
  shows "drain_files run files = None"
proof (cases "drain_files run files")
  case None
  then show ?thesis .
next
  case (Some y)
  then obtain j e where "run j = Inl e" using drain_files_returns by blast
  with assms [of j] show ?thesis by simp
qed

lemma run_files_error: "run_files env d k = Inl e \<Longrightarrow> e = OutOfRangeError"
  by (auto simp: run_files_def split: prod.splits bool.splits if_splits)

lemma drain_run_files_no_error: "drain_files (run_files env d) files \<noteq> Some (Inl e)"
proof
  assume "drain_files (run_files env d) files = Some (Inl e)"
  then obtain j e' where "run_files env d j = Inl e'" "e = e' \<and> e' \<noteq> OutOfRangeError"
    using drain_files_returns by blast
  then show False using run_files_error by blast
qed

lemma count_loop_first_exception:
  assumes yields: "\<And>j. j < n \<Longrightarrow> \<exists>r. run j = Inr r"
    and stops: "run n = Inl e"
    and k: "k \<le> n"
  shows "count_loop run k = Some (int n)"
  using k
proof (induction "n - k" arbitrary: k)
  case 0
  then have "k = n" by simp
  then show ?case using stops by (subst count_loop.simps) simp
next
  case (Suc m)
  then have lt: "k < n" by simp
  then obtain r where "run k = Inr r" using yields by blast
  then have "count_loop run k = count_loop run (Suc k)"
    by (subst count_loop.simps) simp
  also have "\<dots> = Some (int n)"
    using Suc lt by (intro Suc.hyps(1)) simp_all
  finally show ?case .
qed

lemma count_loop_returns:
  "count_loop run k = Some y \<Longrightarrow> \<exists>j e. run j = Inl e"
proof (induction rule: count_loop.raw_induct [rotated 1, consumes 1])
  case (1 count_loop run samples y)
  then show ?case by (cases "run samples") auto
qed

lemma files_of_finite:
  "0 \<le> c \<Longrightarrow> files_of env (RepeatFiles (ListFiles pattern) (Some c)) =
     (concat (replicate (nat c) (list_files env pattern)), False)"
  by simp

lemma enumerate_ds_nth:
  "enumerate_ds xs = map (\<lambda>i. (int i, xs ! i)) [0..<length xs]"
  unfolding enumerate_ds_def by (rule nth_equalityI) simp_all

lemma shard_records:
  "map (\<lambda>(_, elem). elem) (filter (filter_fn t) (enumerate_ds xs)) =
     map (\<lambda>i. xs ! i) (filter (\<lambda>i. int i mod num_workers t = index t) [0..<length xs])"
  by (simp add: enumerate_ds_nth filter_map comp_def filter_fn_def)

subsection \<open>The stages of \<open>read\<close>\<close>

lemma read_source_shuffle:
  "read_source env self num_epochs True =
     Some (Inr (Interleave (RepeatFiles (ListFiles (data_files_pattern self)) num_epochs)
                  (dataset_class self) (cpu_count env + 1) 1))"
  by (simp add: read_source_def)

lemma run_files_finite:
  assumes "0 \<le> c"
  shows "run_files env (RepeatFiles (ListFiles pattern) (Some c)) k =
           (let fs = concat (replicate (nat c) (list_files env pattern))
            in if k < length fs then Inr (fs ! k) else Inl OutOfRangeError)"
  using assms by (simp add: run_files_def)

lemma drain_finite_epochs:
  assumes "0 \<le> c"
  shows "drain_files (run_files env (RepeatFiles (ListFiles pattern) (Some c))) [] =
           Some (Inr (concat (replicate (nat c) (list_files env pattern))))"
  by (rule drain_files_all) (simp_all add: run_files_finite [OF assms])

lemma read_source_finite:
  assumes "0 \<le> c"
  shows "read_source env self (Some c) False =
           Some (Inr (FromFiles (dataset_class self)
                        (concat (replicate (nat c) (list_files env (data_files_pattern self))))))"
  by (simp add: read_source_def drain_finite_epochs [OF assms])

lemma read_source_no_error: "read_source env self num_epochs shuffle \<noteq> Some (Inl e)"
  using drain_run_files_no_error
  by (auto simp: read_source_def Let_def split: option.splits sum.splits if_splits)

lemma read_parse_base:
  "map_override self = None \<Longrightarrow>
     read_parse env self batch_size d = Inl (NotImplementedError ''Should have implemented this'')"
  by (simp add: read_parse_def dataset_map_def bound_map_def TFDataSet_map_def)

lemma read_parse_override:
  "map_override self = Some f \<Longrightarrow>
     read_parse env self batch_size d =
       Inr (Batch (ParMap (bound_map self) (cpu_count env + 1)
                     (batch_size * cpu_count env + min_queue_examples self) d) batch_size)"
  by (simp add: read_parse_def dataset_map_def bound_map_def)

lemma read_parse_cases:
  "read_parse env self batch_size d = Inl (NotImplementedError ''Should have implemented this'')
   \<or> read_parse env self batch_size d =
       Inr (Batch (ParMap (bound_map self) (cpu_count env + 1)
                     (batch_size * cpu_count env + min_queue_examples self) d) batch_size)"
  by (cases "map_override self") (simp_all add: read_parse_base read_parse_override)

lemma read_returns_pipeline:
  assumes "read env self batch_size num_epochs shuffle task_spec = Some (Inr p, s)"
  shows "\<exists>src d. read_source env self num_epochs shuffle = Some (Inr src)
           \<and> read_shuffle self shuffle (read_shard task_spec src) = Inr d
           \<and> p = Batch (ParMap (bound_map self) (cpu_count env + 1)
                         (batch_size * cpu_count env + min_queue_examples self) d) batch_size
           \<and> s = self"
proof (cases "read_source env self num_epochs shuffle")
  case None
  with assms show ?thesis by (simp add: read_def)
next
  case (Some a)
  show ?thesis
  proof (cases a)
    case (Inl e)
    with Some assms show ?thesis by (simp add: read_def)
  next
    case (Inr src)
    note src = Some [unfolded Inr]
    show ?thesis
    proof (cases "read_shuffle self shuffle (read_shard task_spec src)")
      case (Inl e)
      with src assms show ?thesis by (simp add: read_def)
    next
      case (Inr d)
      with src assms have p: "read_parse env self batch_size d = Inr p" and s: "s = self"
        by (auto simp: read_def)
      from p read_parse_cases [of env self batch_size d]
      have "p = Batch (ParMap (bound_map self) (cpu_count env + 1)
                         (batch_size * cpu_count env + min_queue_examples self) d) batch_size"
        by simp
      with src Inr s show ?thesis by blast
    qed
  qed
qed

lemma read_frame:
  "read env self batch_size num_epochs shuffle task_spec = Some (r, s) \<Longrightarrow> s = self"
  by (auto simp: read_def split: option.splits sum.splits)

subsection \<open>Whole calls\<close>

lemma read_sequential:
  assumes "0 \<le> c" and "map_override self = Some f"
  shows "read env self batch_size (Some c) False task_spec =
           Some (Inr (Batch (ParMap (bound_map self) (cpu_count env + 1)
                        (batch_size * cpu_count env + min_queue_examples self)
                        (read_shard task_spec
                           (FromFiles (dataset_class self)
                              (concat (replicate (nat c)
                                 (list_files env (data_files_pattern self)))))))
                      batch_size), self)"
  using assms
  by (simp add: read_def read_source_finite read_shuffle_def read_parse_override)

lemma read_shuffled:
  assumes "shuffle_size self = Some n" and "map_override self = Some f"
  shows "read env self batch_size num_epochs True task_spec =
           Some (Inr (Batch (ParMap (bound_map self) (cpu_count env + 1)
                        (batch_size * cpu_count env + min_queue_examples self)
                        (Shuffle
                           (read_shard task_spec
                              (Interleave
                                 (RepeatFiles (ListFiles (data_files_pattern self)) num_epochs)
                                 (dataset_class self) (cpu_count env + 1) 1))
                           n))
                      batch_size), self)"
  using assms
  by (simp add: read_def read_source_shuffle read_shuffle_def read_parse_override)

lemma read_unset_shuffle_size:
  assumes "shuffle_size self = None"
  shows "read env self batch_size num_epochs True task_spec =
           Some (Inl (ValueError ''shuffle_size has not been set''), self)"
  using assms by (simp add: read_def read_source_shuffle read_shuffle_def)

lemma read_base_shuffled:
  assumes "shuffle_size self = Some n" and "map_override self = None"
  shows "read env self batch_size num_epochs True task_spec =
           Some (Inl (NotImplementedError ''Should have implemented this''), self)"
  using assms
  by (simp add: read_def read_source_shuffle read_shuffle_def read_parse_base)

lemma read_base_sequential:
  assumes "0 \<le> c" and "map_override self = None"
  shows "read env self batch_size (Some c) False task_spec =
           Some (Inl (NotImplementedError ''Should have implemented this''), self)"
  using assms
  by (simp add: read_def read_source_finite read_shuffle_def read_parse_base)

lemma read_never_returns:
  assumes "list_files env (data_files_pattern self) \<noteq> []"
    and "num_epochs = None \<or> (\<exists>c. num_epochs = Some c \<and> c < 0)"
  shows "read env self batch_size num_epochs False task_spec = None"
proof -
  let ?d = "RepeatFiles (ListFiles (data_files_pattern self)) num_epochs"
  have "files_of env ?d = (list_files env (data_files_pattern self), True)"
    using assms by (auto split: option.splits)
  then have "\<exists>d. run_files env ?d j = Inr d" for j
    by (simp add: run_files_def)
  then have "drain_files (run_files env ?d) [] = None"
    by (rule drain_files_endless)
  then show ?thesis
    by (simp add: read_def read_source_def)
qed

lemma shard_records_of:
  assumes "1 < num_workers t"
  shows "records env (read_shard (Some t) d) =
           map (\<lambda>i. records env d ! i)
             (filter (\<lambda>i. int i mod num_workers t = index t) [0..<length (records env d)])"
  using assms by (simp add: read_shard_def shard_records)

lemma get_size_no_attribute:
  "get_size env (init nm pattern cls min_queue shuffle_sz parser) =
     Some (Inl (AttributeError ''TFDataSet object has no attribute _size''),
           init nm pattern cls min_queue shuffle_sz parser)"
  by (simp add: get_size_def init_def)

lemma read_source_finite_listing:
  assumes "files_of env (RepeatFiles (ListFiles (data_files_pattern self)) num_epochs)
             = (fs, False)"
  shows "drain_files
           (run_files env (RepeatFiles (ListFiles (data_files_pattern self)) num_epochs)) []
           = Some (Inr fs)"
    and "read_source env self num_epochs False
           = Some (Inr (FromFiles (dataset_class self) fs))"
proof -
  let ?d = "RepeatFiles (ListFiles (data_files_pattern self)) num_epochs"
  have run: "run_files env ?d k = (if k < length fs then Inr (fs ! k) else Inl OutOfRangeError)"
    for k
    using assms by (simp add: run_files_def del: files_of.simps)
  show drain: "drain_files (run_files env ?d) [] = Some (Inr fs)"
    by (rule drain_files_all) (simp_all add: run)
  show "read_source env self num_epochs False
           = Some (Inr (FromFiles (dataset_class self) fs))"
    using drain by (simp add: read_source_def)
qed

lemma read_source_no_match:
  assumes "list_files env (data_files_pattern self) = []"
  shows "read_source env self num_epochs False
           = Some (Inr (FromFiles (dataset_class self) []))"
proof -
  have "files_of env (RepeatFiles (ListFiles (data_files_pattern self)) num_epochs)
          = ([], False)"
    using assms by (simp split: option.splits)
  then show ?thesis by (rule read_source_finite_listing(2))
qed

lemma count_num_records_first_exception:
  assumes "count_dataset env self = Inr dataset"
    and "\<And>j. j < n \<Longrightarrow> \<exists>r. run_records env dataset j = Inr r"
    and "run_records env dataset n = Inl e"
  shows "count_num_records env self = Some (Inr (int n))"
proof -
  have "count_loop (run_records env dataset) 0 = Some (int n)"
    using assms(2,3)
    by (intro count_loop_first_exception [where run = "run_records env dataset"
          and n = n and e = e]) simp_all
  with assms(1) show ?thesis
    by (simp add: count_num_records_def)
qed

lemma count_num_records_reader_raises:
  assumes "count_dataset env self = Inl e"
  shows "count_num_records env self = Some (Inl e)"
  using assms by (simp add: count_num_records_def)

lemma count_dataset_default_reader:
  assumes "dataset_class self = TextLineDataset"
  shows "count_dataset env self
           = Inl (TypeError ''Failed to convert object of type Dataset to Tensor'')"
  using assms by (simp add: count_dataset_def)

lemma count_dataset_raises_type_error:
  "count_dataset env self = Inl e
     \<Longrightarrow> e = TypeError ''Failed to convert object of type Dataset to Tensor''"
  by (cases "dataset_class self")
     (auto simp: count_dataset_def split: if_splits)

lemma count_dataset_hook:
  "count_dataset env (self\<lparr>map_override := h\<rparr>) = count_dataset env self"
  by (simp add: count_dataset_def)

lemma count_num_records_error:
  assumes "count_num_records env self = Some (Inl e)"
  shows "e = TypeError ''Failed to convert object of type Dataset to Tensor''"
proof (cases "count_dataset env self")
  case (Inl e')
  with assms have "e' = e" by (simp add: count_num_records_def)
  with Inl show ?thesis using count_dataset_raises_type_error by blast
next
  case (Inr dataset)
  with assms show ?thesis
    by (simp add: count_num_records_def split: option.splits)
qed

text \<open>
  With \<open>_size\<close> bound to \<open>None\<close>, \<open>get_size\<close> counts and stores the count; with a
  count stored it returns it without running anything (the result does not depend on
  the outside world). An exception of the count leaves \<open>get_size\<close> and the instance
  as it was.
\<close>

lemma get_size_counts_once:
  assumes "size_slot self = IsNone" and "count_num_records env self = Some (Inr n)"
  shows "get_size env self = Some (Inr n, self\<lparr>size_slot := Cached n\<rparr>)"
    and "get_size env' (self\<lparr>size_slot := Cached n\<rparr>)
           = Some (Inr n, self\<lparr>size_slot := Cached n\<rparr>)"
  using assms by (simp_all add: get_size_def)

lemma get_size_count_raises:
  assumes "size_slot self = IsNone" and "count_num_records env self = Some (Inl e)"
  shows "get_size env self = Some (Inl e, self)"
  using assms by (simp add: get_size_def)

lemma get_size_default_reader:
  assumes "size_slot self = IsNone" and "dataset_class self = TextLineDataset"
  shows "get_size env self
           = Some (Inl (TypeError ''Failed to convert object of type Dataset to Tensor''), self)"
  using assms
  by (simp add: get_size_count_raises count_num_records_reader_raises
        count_dataset_default_reader)

lemma demo_count:
  assumes "dataset_class self = ReaderClass ''FilesReader''"
  shows "count_num_records demo_env self = Some (Inr 3)"
proof -
  have d: "count_dataset demo_env self
             = Inr (RepeatRecs
                      (FromDataset (ReaderClass ''FilesReader'')
                         (RepeatFiles (ListFiles (data_files_pattern self)) (Some 1)))
                      (Some 1))"
    using assms by (simp add: count_dataset_def demo_env_def)
  have "count_num_records demo_env self = Some (Inr (int 3))"
    by (rule count_num_records_first_exception
              [OF d, where e = "OtherError ''DataLossError''"])
       (simp_all add: demo_env_def)
  then show ?thesis by simp
qed

section \<open>The claims\<close>

text \<open>
  Claim C1. When \<open>read\<close> is given a task specification with more than one worker, the
  pipeline keeps exactly the records whose position \<open>i\<close> in the stream, counted from
  zero, has \<open>i mod num_workers = index\<close>, in their order; with no task specification,
  or with at most one worker, the sharding stage leaves the dataset as it is. Every
  pipeline that \<open>read\<close> returns has this stage between its source and its shuffle
  and parse stages.
\<close>

theorem shard_keeps_index_mod_num_workers:
  "(case task_spec of
      None \<Rightarrow> read_shard task_spec d = d
    | Some t \<Rightarrow>
        if 1 < num_workers t then
          records env (read_shard task_spec d) =
            map (\<lambda>i. records env d ! i)
              (filter (\<lambda>i. int i mod num_workers t = index t) [0..<length (records env d)])
        else read_shard task_spec d = d)
   \<and> (read env self batch_size num_epochs shuffle task_spec = Some (Inr p, s) \<longrightarrow>
        (\<exists>src dataset.
           read_source env self num_epochs shuffle = Some (Inr src)
           \<and> read_shuffle self shuffle (read_shard task_spec src) = Inr dataset
           \<and> p = Batch (ParMap (bound_map self) (cpu_count env + 1)
                         (batch_size * cpu_count env + min_queue_examples self) dataset)
                  batch_size))"
proof
  show "case task_spec of
      None \<Rightarrow> read_shard task_spec d = d
    | Some t \<Rightarrow>
        if 1 < num_workers t then
          records env (read_shard task_spec d) =
            map (\<lambda>i. records env d ! i)
              (filter (\<lambda>i. int i mod num_workers t = index t) [0..<length (records env d)])
        else read_shard task_spec d = d"
  proof (cases task_spec)
    case None
    then show ?thesis by (simp add: read_shard_def)
  next
    case (Some t)
    then show ?thesis
      by (cases "1 < num_workers t") (simp_all add: shard_records_of, simp add: read_shard_def)
  qed
next
  show "read env self batch_size num_epochs shuffle task_spec = Some (Inr p, s) \<longrightarrow>
        (\<exists>src dataset.
           read_source env self num_epochs shuffle = Some (Inr src)
           \<and> read_shuffle self shuffle (read_shard task_spec src) = Inr dataset
           \<and> p = Batch (ParMap (bound_map self) (cpu_count env + 1)
                         (batch_size * cpu_count env + min_queue_examples self) dataset)
                  batch_size)"
    using read_returns_pipeline [of env self batch_size num_epochs shuffle task_spec p s]
    by blast
qed

theorem shard_keeps_index_mod_num_workers_witness:
  "read demo_env (init ''demo'' ''*.txt'' TextLineDataset 0 None (Some length)) 2 (Some 1) False
       (Some \<lparr>num_workers = 2, index = 1\<rparr>)
     = Some (Inr (Batch (ParMap
                (bound_map (init ''demo'' ''*.txt'' TextLineDataset 0 None (Some length))) 5 8
                (read_shard (Some \<lparr>num_workers = 2, index = 1\<rparr>)
                   (FromFiles TextLineDataset [''a.txt'', ''b.txt''])))
              2),
             init ''demo'' ''*.txt'' TextLineDataset 0 None (Some length))
   \<and> records demo_env
         (read_shard (Some \<lparr>num_workers = 2, index = 1\<rparr>)
            (FromFiles TextLineDataset [''a.txt'', ''b.txt'']))
       = [''r1'', ''r3'']"
proof -
  let ?self = "init ''demo'' ''*.txt'' TextLineDataset 0 None (Some length) :: nat TFDataSet"
  let ?t = "\<lparr>num_workers = 2, index = 1\<rparr>"
  let ?src = "FromFiles TextLineDataset [''a.txt'', ''b.txt'']"
  have r: "read demo_env ?self 2 (Some 1) False (Some ?t)
     = Some (Inr (Batch (ParMap (bound_map ?self) 5 8 (read_shard (Some ?t) ?src)) 2), ?self)"
    using read_sequential [of 1 ?self length demo_env 2 "Some ?t"]
    by (simp add: init_def demo_env_def)
  have five: "[0..<5] = [0, 1, 2, 3, 4]"
    by (simp add: upt_rec)
  have "records demo_env (read_shard (Some ?t) ?src) = [''r1'', ''r3'']"
    using shard_keeps_index_mod_num_workers
            [where task_spec = "Some ?t" and env = demo_env and d = ?src and self = ?self
               and batch_size = 2 and num_epochs = "Some 1" and shuffle = False]
    by (simp add: demo_env_def five)
  with r show ?thesis by simp
qed

text \<open>
  Claim C2. With \<open>shuffle=True\<close>, \<open>read\<close> raises a \<open>ValueError\<close> exactly when
  \<open>shuffle_size\<close> is \<open>None\<close>; it is then the outcome of the call whatever the parse
  hook is, so it is raised before the parse and batch stages are made (making the
  parse stage of an instance of the base class would raise another exception). With
  \<open>shuffle=False\<close> no \<open>ValueError\<close> is raised, whatever \<open>shuffle_size\<close> is.
\<close>

theorem read_value_error_iff_shuffle_size_unset:
  "((\<exists>msg s. read env self batch_size num_epochs True task_spec
                 = Some (Inl (ValueError msg), s))
      \<longleftrightarrow> shuffle_size self = None)
   \<and> (shuffle_size self = None \<longrightarrow>
        read env self batch_size num_epochs True task_spec
          = Some (Inl (ValueError ''shuffle_size has not been set''), self))
   \<and> (\<forall>msg s. read env self batch_size num_epochs False task_spec
                 \<noteq> Some (Inl (ValueError msg), s))"
proof (intro conjI allI)
  show "(\<exists>msg s. read env self batch_size num_epochs True task_spec
                 = Some (Inl (ValueError msg), s))
      \<longleftrightarrow> shuffle_size self = None"
  proof (cases "shuffle_size self")
    case None
    then show ?thesis using read_unset_shuffle_size [OF None] by simp
  next
    case (Some n)
    let ?d = "Shuffle (read_shard task_spec
                (Interleave (RepeatFiles (ListFiles (data_files_pattern self)) num_epochs)
                   (dataset_class self) (cpu_count env + 1) 1)) n"
    have "read env self batch_size num_epochs True task_spec
            = Some (read_parse env self batch_size ?d, self)"
      using Some by (simp add: read_def read_source_shuffle read_shuffle_def)
    then show ?thesis
      using Some read_parse_cases [of env self batch_size ?d] by auto
  qed
next
  show "shuffle_size self = None \<longrightarrow>
        read env self batch_size num_epochs True task_spec
          = Some (Inl (ValueError ''shuffle_size has not been set''), self)"
    by (simp add: read_unset_shuffle_size)
next
  fix msg s
  show "read env self batch_size num_epochs False task_spec \<noteq> Some (Inl (ValueError msg), s)"
  proof (cases "read_source env self num_epochs False")
    case None
    then show ?thesis by (simp add: read_def)
  next
    case (Some a)
    show ?thesis
    proof (cases a)
      case (Inl e)
      with Some show ?thesis using read_source_no_error by blast
    next
      case (Inr src)
      with Some have "read env self batch_size num_epochs False task_spec
            = Some (read_parse env self batch_size (read_shard task_spec src), self)"
        by (simp add: read_def read_shuffle_def)
      then show ?thesis
        using read_parse_cases [of env self batch_size "read_shard task_spec src"] by auto
    qed
  qed
qed

theorem read_value_error_iff_shuffle_size_unset_witness:
  "shuffle_size (init ''demo'' ''*.txt'' TextLineDataset 0 None (None :: (example \<Rightarrow> nat) option))
     = None
   \<and> read demo_env (init ''demo'' ''*.txt'' TextLineDataset 0 None None) 2 (Some 1) True None
       = Some (Inl (ValueError ''shuffle_size has not been set''),
               init ''demo'' ''*.txt'' TextLineDataset 0 None (None :: (example \<Rightarrow> nat) option))"
  using read_value_error_iff_shuffle_size_unset
          [where self = "init ''demo'' ''*.txt'' TextLineDataset 0 None
                           (None :: (example \<Rightarrow> nat) option)"
             and env = demo_env and batch_size = 2 and num_epochs = "Some 1"
             and task_spec = None]
  by (simp add: init_def)

text \<open>
  Claim C3. The claim asks of every instance that the first \<open>get_size\<close> counts the
  records and returns the count. The constructor never assigns \<open>_size\<close>, so on an
  instance as the constructor leaves it \<open>get_size\<close> raises \<open>AttributeError\<close> at its
  test \<open>self._size is None\<close>, counts nothing and changes nothing.
\<close>

theorem get_size_after_init_raises:
  "get_size env (init nm pattern cls min_queue shuffle_sz parser) =
     Some (Inl (AttributeError ''TFDataSet object has no attribute _size''),
           init nm pattern cls min_queue shuffle_sz parser)"
  by (rule get_size_no_attribute)

text \<open>
  Claim C4. The method \<open>_map\<close> of the base class raises \<open>NotImplementedError\<close> for
  every record, and so does \<open>self._map\<close> on an instance whose class does not override
  it. A call of \<open>read\<close> on such an instance that reaches the parse stage (shuffling
  with a buffer size, or not shuffling over finitely many epochs) raises it to its
  caller.
\<close>

theorem base_map_raises_not_implemented:
  "TFDataSet_map self example_serialized
     = Inl (NotImplementedError ''Should have implemented this'')
   \<and> (map_override self = None \<longrightarrow>
        bound_map self example_serialized
          = Inl (NotImplementedError ''Should have implemented this'')
        \<and> (shuffle_size self \<noteq> None \<longrightarrow>
             read env self batch_size num_epochs True task_spec
               = Some (Inl (NotImplementedError ''Should have implemented this''), self))
        \<and> (0 \<le> c \<longrightarrow>
             read env self batch_size (Some c) False task_spec
               = Some (Inl (NotImplementedError ''Should have implemented this''), self)))"
  using read_base_shuffled [of self _ env batch_size num_epochs task_spec]
    read_base_sequential [of c self env batch_size task_spec]
  by (auto simp: TFDataSet_map_def bound_map_def)

theorem base_map_raises_not_implemented_witness:
  "map_override (init ''base'' ''*.txt'' TextLineDataset 0 (Some 10)
                   (None :: (example \<Rightarrow> nat) option)) = None
   \<and> shuffle_size (init ''base'' ''*.txt'' TextLineDataset 0 (Some 10)
                   (None :: (example \<Rightarrow> nat) option)) \<noteq> None
   \<and> (0 :: int) \<le> 1
   \<and> read demo_env (init ''base'' ''*.txt'' TextLineDataset 0 (Some 10) None) 2 (Some 1) True None
       = Some (Inl (NotImplementedError ''Should have implemented this''),
               init ''base'' ''*.txt'' TextLineDataset 0 (Some 10)
                 (None :: (example \<Rightarrow> nat) option))
   \<and> read demo_env (init ''base'' ''*.txt'' TextLineDataset 0 (Some 10) None) 2 (Some 1) False None
       = Some (Inl (NotImplementedError ''Should have implemented this''),
               init ''base'' ''*.txt'' TextLineDataset 0 (Some 10)
                 (None :: (example \<Rightarrow> nat) option))"
  using base_map_raises_not_implemented
          [where self = "init ''base'' ''*.txt'' TextLineDataset 0 (Some 10)
                           (None :: (example \<Rightarrow> nat) option)"
             and env = demo_env and batch_size = 2 and num_epochs = "Some 1"
             and task_spec = None and c = 1]
  by (simp add: init_def)

text \<open>
  Claim C5. In \<open>_count_num_records\<close>, once the pipeline to count is built, when the
  \<open>n\<close> first steps of the iterator return a record and the next one raises an
  exception, of whatever kind, the loop ends, the exception does not leave the
  function, and the function returns \<open>n\<close>.
\<close>

theorem count_stops_at_any_exception:
  assumes "count_dataset env self = Inr dataset"
    and "\<forall>j<n. \<exists>r. run_records env dataset j = Inr r"
    and "run_records env dataset n = Inl e"
  shows "count_num_records env self = Some (Inr (int n))"
  using assms by (intro count_num_records_first_exception [where e = e]) simp_all

theorem count_stops_at_any_exception_witness:
  "count_dataset demo_env
       (init ''demo'' ''*.txt'' (ReaderClass ''FilesReader'') 0 None (Some length))
     = Inr (RepeatRecs
              (FromDataset (ReaderClass ''FilesReader'')
                 (RepeatFiles (ListFiles ''*.txt'') (Some 1)))
              (Some 1))
   \<and> run_records demo_env
         (RepeatRecs
            (FromDataset (ReaderClass ''FilesReader'')
               (RepeatFiles (ListFiles ''*.txt'') (Some 1)))
            (Some 1)) 2
       = Inr ''line''
   \<and> run_records demo_env
         (RepeatRecs
            (FromDataset (ReaderClass ''FilesReader'')
               (RepeatFiles (ListFiles ''*.txt'') (Some 1)))
            (Some 1)) 3
       = Inl (OtherError ''DataLossError'')
   \<and> count_num_records demo_env
         (init ''demo'' ''*.txt'' (ReaderClass ''FilesReader'') 0 None (Some length))
       = Some (Inr 3)"
proof -
  let ?self = "init ''demo'' ''*.txt'' (ReaderClass ''FilesReader'') 0 None (Some length)
                 :: nat TFDataSet"
  let ?d = "RepeatRecs
              (FromDataset (ReaderClass ''FilesReader'')
                 (RepeatFiles (ListFiles ''*.txt'') (Some 1)))
              (Some 1)"
  have d: "count_dataset demo_env ?self = Inr ?d"
    by (simp add: count_dataset_def init_def demo_env_def)
  have a: "\<forall>j<3. \<exists>r. run_records demo_env ?d j = Inr r"
    by (simp add: demo_env_def)
  have b: "run_records demo_env ?d 3 = Inl (OtherError ''DataLossError'')"
    by (simp add: demo_env_def)
  from count_stops_at_any_exception [OF d a b] d b show ?thesis
    by (simp add: demo_env_def)
qed

text \<open>
  Claim C6. The claim asks of every call of \<open>read\<close> with \<open>shuffle=False\<close> that the
  loop over the file names ends at the end-of-sequence signal with the list of the
  names, and that one reader is made over that list. With an epoch count of \<open>None\<close>
  or \<open>-1\<close> (repeat for ever) and a file that matches, the listing never reaches its
  end: the loop never ends, no reader is made and \<open>read\<close> does not return. Where the
  listing is finite the code does what the claim says (\<open>read_source_finite_listing\<close>,
  \<open>read_source_no_match\<close>, \<open>read_sequential\<close>).
\<close>

theorem read_sequential_endless_never_returns:
  "read demo_env (init ''demo'' ''*.txt'' TextLineDataset 0 None (Some length)) 2 None False None
     = None
   \<and> read demo_env (init ''demo'' ''*.txt'' TextLineDataset 0 None (Some length)) 2 (Some (- 1))
         False None
       = None"
  by (simp add: read_never_returns init_def demo_env_def)

text \<open>
  Claim C7. In every pipeline that \<open>read\<close> returns, the parse stage has
  \<open>cpu_count + 1\<close> threads and an output buffer of
  \<open>batch_size * cpu_count + min_queue_examples\<close>, and applies \<open>self._map\<close>.
\<close>

theorem parse_stage_threads_and_buffer:
  assumes "read env self batch_size num_epochs shuffle task_spec = Some (Inr p, s)"
  shows "\<exists>dataset.
           p = Batch (ParMap (bound_map self) (cpu_count env + 1)
                        (batch_size * cpu_count env + min_queue_examples self) dataset)
                 batch_size"
  using read_returns_pipeline [OF assms] by blast

theorem parse_stage_threads_and_buffer_witness:
  "read demo_env (init ''demo'' ''*.txt'' TextLineDataset 7 (Some 10) (Some length)) 2 None True
       None
     = Some (Inr (Batch (ParMap
                (bound_map (init ''demo'' ''*.txt'' TextLineDataset 7 (Some 10) (Some length)))
                5 15
                (Shuffle (Interleave (RepeatFiles (ListFiles ''*.txt'') None) TextLineDataset 5 1)
                   10))
              2),
             init ''demo'' ''*.txt'' TextLineDataset 7 (Some 10) (Some length))
   \<and> (\<exists>dataset.
         Batch (ParMap
                (bound_map (init ''demo'' ''*.txt'' TextLineDataset 7 (Some 10) (Some length)))
                5 15
                (Shuffle (Interleave (RepeatFiles (ListFiles ''*.txt'') None) TextLineDataset 5 1)
                   10))
              2
         = Batch (ParMap
                (bound_map (init ''demo'' ''*.txt'' TextLineDataset 7 (Some 10) (Some length)))
                (cpu_count demo_env + 1) (2 * cpu_count demo_env + 7) dataset)
              (2 :: int))"
proof -
  let ?self = "init ''demo'' ''*.txt'' TextLineDataset 7 (Some 10) (Some length) :: nat TFDataSet"
  let ?p = "Batch (ParMap (bound_map ?self) 5 15
              (Shuffle (Interleave (RepeatFiles (ListFiles ''*.txt'') None) TextLineDataset 5 1)
                 10)) 2"
  have r: "read demo_env ?self 2 None True None = Some (Inr ?p, ?self)"
    using read_shuffled [of ?self 10 length demo_env 2 None None]
    by (simp add: init_def demo_env_def read_shard_def)
  from parse_stage_threads_and_buffer [OF r] r show ?thesis
    by (simp add: init_def)
qed

text \<open>
  Claim C8. A call of \<open>read\<close> that returns or raises leaves the instance as it was. A
  call of \<open>get_size\<close> that returns or raises leaves \<open>name\<close>, \<open>data_files_pattern\<close>,
  \<open>dataset_class\<close>, \<open>min_queue_examples\<close> and \<open>shuffle_size\<close> as they were, and the
  instance differs from the one before at most in \<open>_size\<close>.
\<close>

theorem read_and_get_size_keep_descriptor:
  "(read env self batch_size num_epochs shuffle task_spec = Some (r, s) \<longrightarrow> s = self)
   \<and> (get_size env self = Some (r', s') \<longrightarrow>
        name s' = name self
        \<and> data_files_pattern s' = data_files_pattern self
        \<and> dataset_class s' = dataset_class self
        \<and> min_queue_examples s' = min_queue_examples self
        \<and> shuffle_size s' = shuffle_size self
        \<and> s' = self\<lparr>size_slot := size_slot s'\<rparr>)"
proof (intro conjI impI)
  assume "read env self batch_size num_epochs shuffle task_spec = Some (r, s)"
  then show "s = self" by (rule read_frame)
next
  assume g: "get_size env self = Some (r', s')"
  then have "s' = self\<lparr>size_slot := size_slot self\<rparr>
               \<or> (\<exists>n. s' = self\<lparr>size_slot := Cached n\<rparr>)"
    by (auto simp: get_size_def split: size_slot.splits option.splits sum.splits)
  then obtain x where x: "s' = self\<lparr>size_slot := x\<rparr>"
    by blast
  show "name s' = name self"
    and "data_files_pattern s' = data_files_pattern self"
    and "dataset_class s' = dataset_class self"
    and "min_queue_examples s' = min_queue_examples self"
    and "shuffle_size s' = shuffle_size self"
    and "s' = self\<lparr>size_slot := size_slot s'\<rparr>"
    by (simp_all add: x)
qed

theorem read_and_get_size_keep_descriptor_witness:
  "read demo_env
       (init ''demo'' ''*.txt'' (ReaderClass ''FilesReader'') 0 None
          (None :: (example \<Rightarrow> nat) option))
       2 (Some 1) True None
     = Some (Inl (ValueError ''shuffle_size has not been set''),
             init ''demo'' ''*.txt'' (ReaderClass ''FilesReader'') 0 None None)
   \<and> get_size demo_env
         ((init ''demo'' ''*.txt'' (ReaderClass ''FilesReader'') 0 None
             (None :: (example \<Rightarrow> nat) option))
            \<lparr>size_slot := IsNone\<rparr>)
       = Some (Inr 3,
               (init ''demo'' ''*.txt'' (ReaderClass ''FilesReader'') 0 None None)
                 \<lparr>size_slot := Cached 3\<rparr>)
   \<and> name ((init ''demo'' ''*.txt'' (ReaderClass ''FilesReader'') 0 None
                (None :: (example \<Rightarrow> nat) option))
              \<lparr>size_slot := Cached 3\<rparr>)
       = ''demo''"
proof -
  let ?self = "init ''demo'' ''*.txt'' (ReaderClass ''FilesReader'') 0 None
                 (None :: (example \<Rightarrow> nat) option)"
  have r: "read demo_env ?self 2 (Some 1) True None
             = Some (Inl (ValueError ''shuffle_size has not been set''), ?self)"
    by (rule read_unset_shuffle_size) (simp add: init_def)
  have c: "count_num_records demo_env (?self\<lparr>size_slot := IsNone\<rparr>) = Some (Inr 3)"
    by (rule demo_count) (simp add: init_def)
  have g: "get_size demo_env (?self\<lparr>size_slot := IsNone\<rparr>)
             = Some (Inr 3, ?self\<lparr>size_slot := Cached 3\<rparr>)"
    using get_size_counts_once(1) [of "?self\<lparr>size_slot := IsNone\<rparr>" demo_env 3] c
    by simp
  from read_and_get_size_keep_descriptor
         [where env = demo_env and self = "?self\<lparr>size_slot := IsNone\<rparr>"
            and r' = "Inr 3" and s' = "?self\<lparr>size_slot := Cached 3\<rparr>"]
    g
  have "name (?self\<lparr>size_slot := Cached 3\<rparr>) = name (?self\<lparr>size_slot := IsNone\<rparr>)"
    by blast
  then have "name (?self\<lparr>size_slot := Cached 3\<rparr>) = ''demo''"
    by (simp add: init_def)
  with r g show ?thesis by simp
qed

text \<open>
  Claim C9. The count does not go through the parse hook. \<open>_count_num_records\<close>
  gives the same outcome whatever \<open>_map\<close> is; neither it nor \<open>get_size\<close> ever raises
  \<open>NotImplementedError\<close>; and on an instance of the base class, whose \<open>_map\<close> raises
  for every record, once the pipeline to count is built the count is the number of
  raw records read before the iterator's first exception, which \<open>get_size\<close> returns
  and stores when \<open>_size\<close> is \<open>None\<close>.
\<close>

theorem count_never_calls_map:
  "count_num_records env (self\<lparr>map_override := h\<rparr>) = count_num_records env self
   \<and> (\<forall>msg. count_num_records env self \<noteq> Some (Inl (NotImplementedError msg)))
   \<and> (\<forall>msg s. get_size env self \<noteq> Some (Inl (NotImplementedError msg), s))
   \<and> (map_override self = None
        \<and> count_dataset env self = Inr dataset
        \<and> (\<forall>j<n. \<exists>r. run_records env dataset j = Inr r)
        \<and> run_records env dataset n = Inl e
        \<longrightarrow> bound_map self example_serialized
              = Inl (NotImplementedError ''Should have implemented this'')
            \<and> count_num_records env self = Some (Inr (int n))
            \<and> (size_slot self = IsNone \<longrightarrow>
                 get_size env self
                   = Some (Inr (int n), self\<lparr>size_slot := Cached (int n)\<rparr>)))"
proof (intro conjI allI impI)
  show "count_num_records env (self\<lparr>map_override := h\<rparr>) = count_num_records env self"
    by (simp add: count_num_records_def count_dataset_hook)
next
  fix msg
  show "count_num_records env self \<noteq> Some (Inl (NotImplementedError msg))"
    using count_num_records_error [of env self "NotImplementedError msg"] by auto
next
  fix msg s
  show "get_size env self \<noteq> Some (Inl (NotImplementedError msg), s)"
    using count_num_records_error [of env self "NotImplementedError msg"]
    by (auto simp: get_size_def split: size_slot.splits option.splits sum.splits)
next
  assume a: "map_override self = None
        \<and> count_dataset env self = Inr dataset
        \<and> (\<forall>j<n. \<exists>r. run_records env dataset j = Inr r)
        \<and> run_records env dataset n = Inl e"
  then show "bound_map self example_serialized
               = Inl (NotImplementedError ''Should have implemented this'')"
    by (simp add: bound_map_def TFDataSet_map_def)
  from a show c: "count_num_records env self = Some (Inr (int n))"
    by (intro count_num_records_first_exception [where e = e and dataset = dataset]) simp_all
  assume "size_slot self = IsNone"
  with c show "get_size env self = Some (Inr (int n), self\<lparr>size_slot := Cached (int n)\<rparr>)"
    by (simp add: get_size_counts_once(1))
qed

theorem count_never_calls_map_witness:
  "map_override
       ((init ''base'' ''*.txt'' (ReaderClass ''FilesReader'') 0 None
           (None :: (example \<Rightarrow> nat) option))\<lparr>size_slot := IsNone\<rparr>)
     = None
   \<and> count_dataset demo_env
         ((init ''base'' ''*.txt'' (ReaderClass ''FilesReader'') 0 None
             (None :: (example \<Rightarrow> nat) option))\<lparr>size_slot := IsNone\<rparr>)
       = Inr (RepeatRecs
                (FromDataset (ReaderClass ''FilesReader'')
                   (RepeatFiles (ListFiles ''*.txt'') (Some 1)))
                (Some 1))
   \<and> count_num_records demo_env
         ((init ''base'' ''*.txt'' (ReaderClass ''FilesReader'') 0 None
             (None :: (example \<Rightarrow> nat) option))\<lparr>size_slot := IsNone\<rparr>)
       = Some (Inr 3)
   \<and> get_size demo_env
         ((init ''base'' ''*.txt'' (ReaderClass ''FilesReader'') 0 None
             (None :: (example \<Rightarrow> nat) option))\<lparr>size_slot := IsNone\<rparr>)
       = Some (Inr 3,
               (init ''base'' ''*.txt'' (ReaderClass ''FilesReader'') 0 None None)
                 \<lparr>size_slot := Cached 3\<rparr>)"
  using count_never_calls_map
          [where env = demo_env and n = 3 and e = "OtherError ''DataLossError''"
             and dataset = "RepeatRecs
                              (FromDataset (ReaderClass ''FilesReader'')
                                 (RepeatFiles (ListFiles ''*.txt'') (Some 1)))
                              (Some 1)"
             and self = "(init ''base'' ''*.txt'' (ReaderClass ''FilesReader'') 0 None
                            (None :: (example \<Rightarrow> nat) option))\<lparr>size_slot := IsNone\<rparr>"]
  by (simp add: init_def demo_env_def count_dataset_def)

text \<open>
  Claim C10. In a call of \<open>read\<close> with \<open>shuffle=True\<close> and more than one worker, the
  shuffle stage is put on top of the shard stage: the records that are shuffled
  are those at the positions \<open>i\<close> of the stream before the shuffle with
  \<open>i mod num_workers = index\<close>, and no others.
\<close>

theorem shard_before_shuffle:
  assumes "shuffle_size self = Some n"
    and "map_override self = Some f"
    and "1 < num_workers t"
    and "src = Interleave (RepeatFiles (ListFiles (data_files_pattern self)) num_epochs)
                 (dataset_class self) (cpu_count env + 1) 1"
  shows "read env self batch_size num_epochs True (Some t)
           = Some (Inr (Batch (ParMap (bound_map self) (cpu_count env + 1)
                          (batch_size * cpu_count env + min_queue_examples self)
                          (Shuffle
                             (MapIndexed (\<lambda>(_, elem). elem)
                                (Filter (filter_fn t) (Enumerate src)))
                             n))
                        batch_size), self)
         \<and> records env
               (Shuffle (MapIndexed (\<lambda>(_, elem). elem) (Filter (filter_fn t) (Enumerate src))) n)
             = shuffle_order env n
                 (map (\<lambda>i. records env src ! i)
                    (filter (\<lambda>i. int i mod num_workers t = index t)
                       [0..<length (records env src)]))"
proof
  have "read_shard (Some t) src
          = MapIndexed (\<lambda>(_, elem). elem) (Filter (filter_fn t) (Enumerate src))"
    using assms(3) by (simp add: read_shard_def)
  then show "read env self batch_size num_epochs True (Some t)
           = Some (Inr (Batch (ParMap (bound_map self) (cpu_count env + 1)
                          (batch_size * cpu_count env + min_queue_examples self)
                          (Shuffle
                             (MapIndexed (\<lambda>(_, elem). elem)
                                (Filter (filter_fn t) (Enumerate src)))
                             n))
                        batch_size), self)"
    using read_shuffled [OF assms(1) assms(2), of env batch_size num_epochs "Some t"] assms(4)
    by simp
next
  show "records env
               (Shuffle (MapIndexed (\<lambda>(_, elem). elem) (Filter (filter_fn t) (Enumerate src))) n)
             = shuffle_order env n
                 (map (\<lambda>i. records env src ! i)
                    (filter (\<lambda>i. int i mod num_workers t = index t)
                       [0..<length (records env src)]))"
    by (simp add: shard_records)
qed

theorem shard_before_shuffle_witness:
  "shuffle_size (init ''demo'' ''*.txt'' TextLineDataset 0 (Some 10) (Some length)) = Some 10
   \<and> map_override (init ''demo'' ''*.txt'' TextLineDataset 0 (Some 10) (Some length))
       = Some length
   \<and> 1 < num_workers \<lparr>num_workers = 2, index = 1\<rparr>
   \<and> read demo_env (init ''demo'' ''*.txt'' TextLineDataset 0 (Some 10) (Some length)) 2 (Some 1)
         True (Some \<lparr>num_workers = 2, index = 1\<rparr>)
       = Some (Inr (Batch (ParMap
                  (bound_map (init ''demo'' ''*.txt'' TextLineDataset 0 (Some 10) (Some length)))
                  5 8
                  (Shuffle
                     (MapIndexed (\<lambda>(_, elem). elem)
                        (Filter (filter_fn \<lparr>num_workers = 2, index = 1\<rparr>)
                           (Enumerate
                              (Interleave (RepeatFiles (ListFiles ''*.txt'') (Some 1))
                                 TextLineDataset 5 1))))
                     10))
                2),
               init ''demo'' ''*.txt'' TextLineDataset 0 (Some 10) (Some length))
   \<and> records demo_env
         (Shuffle
            (MapIndexed (\<lambda>(_, elem). elem)
               (Filter (filter_fn \<lparr>num_workers = 2, index = 1\<rparr>)
                  (Enumerate
                     (Interleave (RepeatFiles (ListFiles ''*.txt'') (Some 1))
                        TextLineDataset 5 1))))
            10)
       = [''r3'', ''r1'']"
proof -
  have five: "[0..<5] = [0, 1, 2, 3, 4]"
    by (simp add: upt_rec)
  show ?thesis
    using shard_before_shuffle
          [where env = demo_env and n = 10 and f = length and batch_size = 2
             and t = "\<lparr>num_workers = 2, index = 1\<rparr>" and num_epochs = "Some 1"
             and self = "init ''demo'' ''*.txt'' TextLineDataset 0 (Some 10) (Some length)
                           :: nat TFDataSet", OF _ _ _ refl]
    by (simp add: init_def demo_env_def five)
qed

end
